theory Spec2Isabelle
  imports Main
begin

section \<open>Python values\<close>

text \<open>
  The values that cross the interface of \<^verbatim>\<open>futon.py\<close>: arguments of \<^verbatim>\<open>find\<close>, JSON
  request payloads and decoded JSON response bodies. A dict is an association list in
  insertion order, with string keys. Python's \<^verbatim>\<open>None\<close> and JSON's \<^verbatim>\<open>null\<close> are the same
  value. Floating point numbers are left out.
\<close>

datatype pyval =
    PNone
  | PBool bool
  | PInt int
  | PStr string
  | PList "pyval list"
  | PDict "(string \<times> pyval) list"

text \<open>Truth value testing, as \<^verbatim>\<open>if x:\<close> does it.\<close>

fun truthy :: "pyval \<Rightarrow> bool" where
  "truthy PNone = False"
| "truthy (PBool b) = b"
| "truthy (PInt i) = (i \<noteq> 0)"
| "truthy (PStr s) = (s \<noteq> [])"
| "truthy (PList xs) = (xs \<noteq> [])"
| "truthy (PDict kvs) = (kvs \<noteq> [])"

text \<open>Truth value of an optional string (user name, password): \<^verbatim>\<open>None\<close> and \<^verbatim>\<open>""\<close> are false.\<close>

fun truthy_str :: "string option \<Rightarrow> bool" where
  "truthy_str None = False"
| "truthy_str (Some s) = (s \<noteq> [])"

text \<open>\<^verbatim>\<open>d[k] = v\<close>: an existing key keeps its position, a new key goes last.\<close>

fun setitem :: "(string \<times> pyval) list \<Rightarrow> string \<Rightarrow> pyval \<Rightarrow> (string \<times> pyval) list" where
  "setitem [] k v = [(k, v)]"
| "setitem (p # ps) k v = (if fst p = k then (k, v) # ps else p # setitem ps k v)"

text \<open>\<^verbatim>\<open>s.rstrip(chars)\<close>: drop every trailing character that occurs in \<^verbatim>\<open>chars\<close>.\<close>

definition rstrip :: "string \<Rightarrow> string \<Rightarrow> string" where
  "rstrip s chars = rev (dropWhile (\<lambda>c. c \<in> set chars) (rev s))"

section \<open>The HTTP layer\<close>

text \<open>
  The \<^verbatim>\<open>requests\<close> library is the environment of the program. A call such as
  \<^verbatim>\<open>requests.head(url, auth=auth, verify=path)\<close> is a request handed to a transport; the
  transport answers with a response or raises (\<open>Inl\<close> with the message of the
  exception). The transport is a parameter of every operation and may have a state of its
  own (the server), so nothing is assumed about what it answers. Every request handed to
  it is appended to a log, also when the transport raises.
\<close>

datatype http_method = GET | HEAD | PUT | POST

record request =
  req_method :: http_method
  req_url :: string
  req_json :: "pyval option"
  req_auth :: "(string option \<times> string option) option"
  req_verify :: "string option"

text \<open>
  A response: its status code and its body decoded as JSON (\<open>None\<close> when the body is not
  JSON).
\<close>

record response =
  status_code :: int
  json_data :: "pyval option"

text \<open>
  Exceptions. \<open>TransportError\<close> stands for what the transport raises (connection, TLS,
  timeout), \<open>HTTPError\<close> is raised by \<^verbatim>\<open>raise_for_status\<close>, \<open>JSONDecodeError\<close> by
  \<^verbatim>\<open>response.json()\<close>; these three are \<^verbatim>\<open>RequestException\<close>s. \<open>AttributeError\<close> is
  Python's own, raised by \<^verbatim>\<open>data.get\<close> on a value that is not a dict.
\<close>

datatype exc = TransportError string | HTTPError int | JSONDecodeError | AttributeError


type_synonym 's transport = "request \<Rightarrow> 's \<Rightarrow> (string + response) \<times> 's"

type_synonym 's world = "request list \<times> 's"

definition send :: "'s transport \<Rightarrow> request \<Rightarrow> 's world \<Rightarrow> (exc + response) \<times> 's world" where
  "send net req w =
     (case net req (snd w) of
        (Inl msg, s') \<Rightarrow> (Inl (TransportError msg), (fst w @ [req], s'))
      | (Inr r, s') \<Rightarrow> (Inr r, (fst w @ [req], s')))"

text \<open>
  \<^verbatim>\<open>Response.raise_for_status()\<close> of the library raises \<^verbatim>\<open>HTTPError\<close> for a status code
  from 400 to 599 and returns otherwise.
\<close>

definition raise_for_status :: "response \<Rightarrow> exc + unit" where
  "raise_for_status r =
     (if 400 \<le> status_code r \<and> status_code r < 600 then Inl (HTTPError (status_code r))
      else Inr ())"

definition json :: "response \<Rightarrow> exc + pyval" where
  "json r = (case json_data r of None \<Rightarrow> Inl JSONDecodeError | Some v \<Rightarrow> Inr v)"

text \<open>\<^verbatim>\<open>data.get(key, default)\<close>; only a dict has the method.\<close>

fun dict_get :: "pyval \<Rightarrow> string \<Rightarrow> pyval \<Rightarrow> exc + pyval" where
  "dict_get (PDict kvs) k d = Inr (case map_of kvs k of Some v \<Rightarrow> v | None \<Rightarrow> d)"
| "dict_get _ k d = Inl AttributeError"

section \<open>Database and Client\<close>

text \<open>
  Both classes hold the same four connection fields. \<open>databases_memo\<close> is the field
  \<^verbatim>\<open>_databases\<close> of \<^verbatim>\<open>Client\<close>. The \<^verbatim>\<open>print\<close> calls of the source are not modelled; an
  \<^verbatim>\<open>except\<close> clause that prints and re-raises is the propagation of the exception.
\<close>

record conn =
  couchdb_url :: string
  username :: "string option"
  password :: "string option"
  ca_cert_path :: "string option"

record database = conn +
  db_name :: string

record client = conn +
  databases_memo :: pyval

definition Database_init ::
  "string \<Rightarrow> string option \<Rightarrow> string option \<Rightarrow> string option \<Rightarrow> string \<Rightarrow> database" where
  "Database_init url u p ca name =
     \<lparr>couchdb_url = rstrip url ''/'', username = u, password = p, ca_cert_path = ca,
      db_name = name\<rparr>"

definition Client_init ::
  "string \<Rightarrow> string option \<Rightarrow> string option \<Rightarrow> string option \<Rightarrow> client" where
  "Client_init url u p ca =
     \<lparr>couchdb_url = rstrip url ''/'', username = u, password = p, ca_cert_path = ca,
      databases_memo = PNone\<rparr>"

definition Client_getitem :: "client \<Rightarrow> string \<Rightarrow> database" where
  "Client_getitem c name =
     Database_init (couchdb_url c) (username c) (password c) (ca_cert_path c) name"

text \<open>
  \<^verbatim>\<open>(self.username, self.password) if self.username and self.password else None\<close>
\<close>

definition auth_of :: "string option \<Rightarrow> string option \<Rightarrow> (string option \<times> string option) option" where
  "auth_of u p = (if truthy_str u \<and> truthy_str p then Some (u, p) else None)"

definition exists_request :: "database \<Rightarrow> request" where
  "exists_request db =
     \<lparr>req_method = HEAD, req_url = couchdb_url db @ ''/'' @ db_name db, req_json = None,
      req_auth = auth_of (username db) (password db), req_verify = ca_cert_path db\<rparr>"

text \<open>
  \<^verbatim>\<open>exists\<close>: when the status is neither 200 nor 404 and \<^verbatim>\<open>raise_for_status\<close> does not
  raise, control leaves the \<^verbatim>\<open>try\<close> block and the method returns \<^verbatim>\<open>None\<close>.
\<close>

definition Database_exists :: "'s transport \<Rightarrow> database \<Rightarrow> 's world \<Rightarrow> (exc + pyval) \<times> 's world" where
  "Database_exists net db w =
     (case send net (exists_request db) w of
        (Inl e, w') \<Rightarrow> (Inl e, w')
      | (Inr response, w') \<Rightarrow>
          if status_code response = 200 then (Inr (PBool True), w')
          else if status_code response = 404 then (Inr (PBool False), w')
          else (case raise_for_status response of
                  Inl e \<Rightarrow> (Inl e, w')
                | Inr _ \<Rightarrow> (Inr PNone, w')))"

definition create_request :: "database \<Rightarrow> request" where
  "create_request db =
     \<lparr>req_method = PUT, req_url = couchdb_url db @ ''/'' @ db_name db, req_json = None,
      req_auth = auth_of (username db) (password db), req_verify = ca_cert_path db\<rparr>"

definition Database_create :: "'s transport \<Rightarrow> database \<Rightarrow> 's world \<Rightarrow> (exc + pyval) \<times> 's world" where
  "Database_create net db w =
     (case Database_exists net db w of
        (Inl e, w1) \<Rightarrow> (Inl e, w1)
      | (Inr ex, w1) \<Rightarrow>
          if truthy ex then (Inr (PBool False), w1)
          else (case send net (create_request db) w1 of
                  (Inl e, w2) \<Rightarrow> (Inl e, w2)
                | (Inr response, w2) \<Rightarrow>
                    (case raise_for_status response of
                       Inl e \<Rightarrow> (Inl e, w2)
                     | Inr _ \<Rightarrow> (Inr (PBool True), w2))))"

text \<open>The payload that \<^verbatim>\<open>find\<close> builds before it sends the request.\<close>

definition find_payload :: "pyval \<Rightarrow> pyval \<Rightarrow> pyval \<Rightarrow> pyval \<Rightarrow> pyval \<Rightarrow> (string \<times> pyval) list" where
  "find_payload selector columns sort' descending limit =
     (let selector1 = (if truthy selector then selector else PDict []);
          payload0 = [(''selector'', selector1)];
          payload1 = (if truthy columns then setitem payload0 ''fields'' columns else payload0);
          payload2 =
            (if truthy sort' then
               (case sort' of
                  PStr s \<Rightarrow>
                    setitem payload1 ''sort''
                      (PList [PDict [(s, PStr (if truthy descending then ''desc'' else ''asc''))]])
                | PList xs \<Rightarrow> setitem payload1 ''sort'' sort'
                | _ \<Rightarrow> payload1)
             else payload1)
      in (if truthy limit then setitem payload2 ''limit'' limit else payload2))"

definition find_request :: "database \<Rightarrow> (string \<times> pyval) list \<Rightarrow> request" where
  "find_request db payload =
     \<lparr>req_method = POST, req_url = couchdb_url db @ ''/'' @ db_name db @ ''/_find'',
      req_json = Some (PDict payload),
      req_auth = auth_of (username db) (password db), req_verify = ca_cert_path db\<rparr>"

definition Database_find ::
  "'s transport \<Rightarrow> database \<Rightarrow> pyval \<Rightarrow> pyval \<Rightarrow> pyval \<Rightarrow> pyval \<Rightarrow> pyval \<Rightarrow> 's world
     \<Rightarrow> (exc + pyval) \<times> 's world" where
  "Database_find net db selector columns sort' descending limit w =
     (case send net (find_request db (find_payload selector columns sort' descending limit)) w of
        (Inl e, w') \<Rightarrow> (Inl e, w')
      | (Inr response, w') \<Rightarrow>
          (case raise_for_status response of
             Inl e \<Rightarrow> (Inl e, w')
           | Inr _ \<Rightarrow>
               (case json response of
                  Inl e \<Rightarrow> (Inl e, w')
                | Inr data \<Rightarrow> (dict_get data ''docs'' (PList []), w'))))"

definition insert_many_request :: "database \<Rightarrow> pyval \<Rightarrow> request" where
  "insert_many_request db records =
     \<lparr>req_method = POST, req_url = couchdb_url db @ ''/'' @ db_name db @ ''/_bulk_docs'',
      req_json = Some (PDict [(''docs'', records)]),
      req_auth = auth_of (username db) (password db), req_verify = ca_cert_path db\<rparr>"

definition Database_insert_many ::
  "'s transport \<Rightarrow> database \<Rightarrow> pyval \<Rightarrow> 's world \<Rightarrow> (exc + pyval) \<times> 's world" where
  "Database_insert_many net db records w =
     (case send net (insert_many_request db records) w of
        (Inl e, w') \<Rightarrow> (Inl e, w')
      | (Inr response, w') \<Rightarrow>
          (case raise_for_status response of
             Inl e \<Rightarrow> (Inl e, w')
           | Inr _ \<Rightarrow> (json response, w')))"

definition insert_one_request :: "database \<Rightarrow> pyval \<Rightarrow> request" where
  "insert_one_request db document =
     \<lparr>req_method = POST, req_url = couchdb_url db @ ''/'' @ db_name db,
      req_json = Some document,
      req_auth = auth_of (username db) (password db), req_verify = ca_cert_path db\<rparr>"

definition Database_insert_one ::
  "'s transport \<Rightarrow> database \<Rightarrow> pyval \<Rightarrow> 's world \<Rightarrow> (exc + pyval) \<times> 's world" where
  "Database_insert_one net db document w =
     (case send net (insert_one_request db document) w of
        (Inl e, w') \<Rightarrow> (Inl e, w')
      | (Inr response, w') \<Rightarrow>
          (case raise_for_status response of
             Inl e \<Rightarrow> (Inl e, w')
           | Inr _ \<Rightarrow> (json response, w')))"

definition databases_request :: "client \<Rightarrow> request" where
  "databases_request c =
     \<lparr>req_method = GET, req_url = couchdb_url c @ ''/_all_dbs'', req_json = None,
      req_auth = auth_of (username c) (password c), req_verify = ca_cert_path c\<rparr>"

text \<open>
  The \<^verbatim>\<open>databases\<close> property. It reads and writes the memo field, so the client is
  returned with the result.
\<close>

definition Client_databases ::
  "'s transport \<Rightarrow> client \<Rightarrow> 's world \<Rightarrow> (exc + pyval) \<times> client \<times> 's world" where
  "Client_databases net c w =
     (if truthy (databases_memo c) then (Inr (databases_memo c), c, w)
      else (case send net (databases_request c) w of
              (Inl e, w') \<Rightarrow> (Inl e, c, w')
            | (Inr response, w') \<Rightarrow>
                (case raise_for_status response of
                   Inl e \<Rightarrow> (Inl e, c, w')
                 | Inr _ \<Rightarrow>
                     (case json response of
                        Inl e \<Rightarrow> (Inl e, c, w')
                      | Inr v \<Rightarrow> (Inr v, c\<lparr>databases_memo := v\<rparr>, w')))))"

section \<open>Concrete transports and objects\<close>

text \<open>A stateless transport that answers every request with the same response.\<close>

definition always :: "int \<Rightarrow> pyval option \<Rightarrow> unit transport" where
  "always code body req s = (Inr \<lparr>status_code = code, json_data = body\<rparr>, s)"

text \<open>
  A transport whose state is the list of responses still to be given, one per request; it
  raises a transport error when the list is used up.
\<close>

fun scripted :: "(string + response) list transport" where
  "scripted req [] = (Inl ''no response'', [])"
| "scripted req (r # rs) = (r, rs)"

definition db0 :: database where
  "db0 = Database_init ''http://h:5984/'' (Some ''u'') (Some ''pw'') None ''d''"

definition client0 :: client where
  "client0 = Client_init ''http://h:5984/'' (Some ''u'') (Some ''pw'') None"

section \<open>Helper lemmas\<close>

lemma map_of_setitem: "map_of (setitem ps k v) = (map_of ps)(k \<mapsto> v)"
  by (induction ps) (auto simp: fun_eq_iff)

lemma dropWhile_replicate: "P c \<Longrightarrow> dropWhile P (replicate k c @ ys) = dropWhile P ys"
  by (induction k) simp_all

lemma rstrip_append_slashes: "rstrip (e @ replicate k CHR ''/'') ''/'' = rstrip e ''/''"
  by (simp add: rstrip_def dropWhile_replicate)

lemma rstrip_no_trailing: "rstrip e ''/'' \<noteq> t @ ''/''"
proof
  assume "rstrip e ''/'' = t @ ''/''"
  then have "rev (rstrip e ''/'') = rev (t @ ''/'')"
    by simp
  then have "dropWhile (\<lambda>c. c \<in> set ''/'') (rev e) = CHR ''/'' # rev t"
    by (simp add: rstrip_def)
  then show False
    using hd_dropWhile[of "\<lambda>c. c \<in> set ''/''" "rev e"] by simp
qed

text \<open>The keys of the payload that \<^verbatim>\<open>find\<close> builds.\<close>

lemma keys_setitem: "set (map fst (setitem ps k v)) = insert k (set (map fst ps))"
  by (induction ps) auto

lemma keys_find_payload:
  "set (map fst (find_payload sel cols srt d lim)) =
     {''selector''} \<union> (if truthy cols then {''fields''} else {})
       \<union> (if truthy srt \<and> ((\<exists>s. srt = PStr s) \<or> (\<exists>xs. srt = PList xs)) then {''sort''} else {})
       \<union> (if truthy lim then {''limit''} else {})"
proof (cases srt)
  case (PStr s)
  then show ?thesis
    by (simp add: find_payload_def Let_def keys_setitem insert_commute)
next
  case (PList xs)
  then show ?thesis
    by (simp add: find_payload_def Let_def keys_setitem insert_commute)
qed (simp_all add: find_payload_def Let_def keys_setitem insert_commute)

text \<open>The requests that each operation hands to the transport.\<close>

lemma Database_exists_log:
  "fst (snd (Database_exists net db w)) = fst w @ [exists_request db]"
  by (simp add: Database_exists_def send_def split: prod.splits sum.splits)

lemma Database_create_log:
  "fst (snd (Database_create net db w)) = fst w @ [exists_request db] \<or>
   fst (snd (Database_create net db w)) = fst w @ [exists_request db, create_request db]"
  using Database_exists_log[of net db w]
  by (auto simp add: Database_create_def send_def split: prod.splits sum.splits)

lemma Database_find_log:
  "fst (snd (Database_find net db sel cols srt d lim w)) =
     fst w @ [find_request db (find_payload sel cols srt d lim)]"
  by (simp add: Database_find_def send_def split: prod.splits sum.splits)

lemma Database_insert_many_log:
  "fst (snd (Database_insert_many net db records w)) = fst w @ [insert_many_request db records]"
  by (simp add: Database_insert_many_def send_def split: prod.splits sum.splits)

lemma Database_insert_one_log:
  "fst (snd (Database_insert_one net db document w)) = fst w @ [insert_one_request db document]"
  by (simp add: Database_insert_one_def send_def split: prod.splits sum.splits)

lemma Client_databases_log:
  "fst (snd (snd (Client_databases net c w))) =
     (if truthy (databases_memo c) then fst w else fst w @ [databases_request c])"
  by (simp add: Client_databases_def send_def split: prod.splits sum.splits)

text \<open>The existence check, status by status.\<close>

lemma Database_exists_200:
  "net (exists_request db) s = (Inr r, s') \<Longrightarrow> status_code r = 200 \<Longrightarrow>
   Database_exists net db (log, s) = (Inr (PBool True), (log @ [exists_request db], s'))"
  by (simp add: Database_exists_def send_def)

lemma Database_exists_404:
  "net (exists_request db) s = (Inr r, s') \<Longrightarrow> status_code r = 404 \<Longrightarrow>
   Database_exists net db (log, s) = (Inr (PBool False), (log @ [exists_request db], s'))"
  by (simp add: Database_exists_def send_def)

lemma Database_exists_error_status:
  "net (exists_request db) s = (Inr r, s') \<Longrightarrow> status_code r \<noteq> 404 \<Longrightarrow>
   400 \<le> status_code r \<Longrightarrow> status_code r < 600 \<Longrightarrow>
   Database_exists net db (log, s) =
     (Inl (HTTPError (status_code r)), (log @ [exists_request db], s'))"
  by (simp add: Database_exists_def send_def raise_for_status_def)

lemma Database_exists_other_status:
  "net (exists_request db) s = (Inr r, s') \<Longrightarrow> status_code r \<noteq> 200 \<Longrightarrow>
   status_code r < 400 \<or> 600 \<le> status_code r \<Longrightarrow>
   Database_exists net db (log, s) = (Inr PNone, (log @ [exists_request db], s'))"
  by (auto simp add: Database_exists_def send_def raise_for_status_def)

text \<open>The memo of the database list.\<close>

lemma Client_databases_memoized:
  "truthy (databases_memo c) \<Longrightarrow> Client_databases net c w = (Inr (databases_memo c), c, w)"
  by (simp add: Client_databases_def)

lemma Client_databases_success:
  "Client_databases net c w = (Inr v, c', w') \<Longrightarrow> databases_memo c' = v"
  by (auto simp add: Client_databases_def split: if_splits prod.splits sum.splits)

lemma Client_databases_failure:
  "Client_databases net c w = (Inl e, c', w') \<Longrightarrow> c' = c \<and> \<not> truthy (databases_memo c)"
  by (auto simp add: Client_databases_def split: if_splits prod.splits sum.splits)

lemma Client_databases_nonempty_once:
  assumes "Client_databases net c w = (Inr v, c', w')" and "truthy v"
  shows "Client_databases net c' w' = (Inr v, c', w')"
  using assms Client_databases_success[OF assms(1)] by (simp add: Client_databases_memoized)

section \<open>Existence check\<close>

text \<open>
  C1. \<^verbatim>\<open>exists()\<close> is claimed to return true for status 200, false for status 404 and to
  raise for every other status. The first two hold (\<open>Database_exists_200\<close>,
  \<open>Database_exists_404\<close>), and a status from 400 to 599 raises
  (\<open>Database_exists_error_status\<close>). For any other status the claim fails: a HEAD request
  is not redirected by the library, so the status 301 reaches the method; there
  \<^verbatim>\<open>raise_for_status\<close> does not raise and the method returns \<^verbatim>\<open>None\<close>, neither a
  boolean nor an error.
\<close>

theorem exists_status_301_returns_None:
  "Database_exists (always 301 None) db0 ([], ()) = (Inr PNone, ([exists_request db0], ()))"
  by (simp add: Database_exists_def send_def always_def raise_for_status_def)

section \<open>The memoized database list\<close>

text \<open>
  C2. After one successful read of \<^verbatim>\<open>databases\<close>, every later read on the same client is
  claimed to return the memoized list without a request. The memo is tested by its truth
  value, so this holds when the list is not empty (\<open>Client_databases_nonempty_once\<close>).
  When the server answers with the empty list, the first read succeeds and stores it, and
  the second read sends the request again: two requests in the log.
\<close>

theorem databases_empty_list_fetched_again:
  "Client_databases (always 200 (Some (PList []))) client0 ([], ()) =
     (Inr (PList []), client0\<lparr>databases_memo := PList []\<rparr>, ([databases_request client0], ()))
   \<and> Client_databases (always 200 (Some (PList []))) (client0\<lparr>databases_memo := PList []\<rparr>)
        ([databases_request client0], ()) =
     (Inr (PList []), client0\<lparr>databases_memo := PList []\<rparr>,
      ([databases_request client0, databases_request client0], ()))"
  by (simp add: Client_databases_def send_def always_def raise_for_status_def json_def
      client0_def Client_init_def databases_request_def)

text \<open>
  C6. When reading \<^verbatim>\<open>databases\<close> fails, the client is unchanged, the request was sent
  once, and the next read sends it again.
\<close>

theorem databases_failure_not_cached:
  "Client_databases net c w = (Inl e, c', w') \<Longrightarrow>
     c' = c \<and> databases_memo c' = databases_memo c
     \<and> fst w' = fst w @ [databases_request c]
     \<and> fst (snd (snd (Client_databases net c' w'))) = fst w' @ [databases_request c']"
proof -
  assume fails: "Client_databases net c w = (Inl e, c', w')"
  then have same: "c' = c" and empty: "\<not> truthy (databases_memo c)"
    using Client_databases_failure by blast+
  have "fst w' = fst w @ [databases_request c]"
    using Client_databases_log[of net c w] fails empty by simp
  moreover have "fst (snd (snd (Client_databases net c' w'))) = fst w' @ [databases_request c']"
    using Client_databases_log[of net c' w'] same empty by simp
  ultimately show ?thesis
    using same by simp
qed

theorem databases_failure_not_cached_witness:
  "Client_databases (always 500 None) client0 ([], ()) =
     (Inl (HTTPError 500), client0, ([databases_request client0], ()))
   \<and> databases_memo client0 = PNone
   \<and> fst (snd (snd (Client_databases (always 500 None) client0 ([databases_request client0], ())))) =
       [databases_request client0, databases_request client0]"
proof -
  have fails: "Client_databases (always 500 None) client0 ([], ()) =
      (Inl (HTTPError 500), client0, ([databases_request client0], ()))"
    by (simp add: Client_databases_def send_def always_def raise_for_status_def client0_def
        Client_init_def)
  show ?thesis
    using databases_failure_not_cached[OF fails] fails
    by (simp add: client0_def Client_init_def)
qed

section \<open>Creation\<close>

text \<open>
  The claim C3 says that \<^verbatim>\<open>create()\<close> fails on every response to the PUT request whose
  status is not 2xx. The database is absent (404), the PUT is answered with status 304:
  \<^verbatim>\<open>raise_for_status\<close> does not raise and \<^verbatim>\<open>create()\<close> returns true.
\<close>

theorem create_returns_True_on_304:
  "Database_create scripted db0
     ([], [Inr \<lparr>status_code = 404, json_data = None\<rparr>, Inr \<lparr>status_code = 304, json_data = None\<rparr>])
   = (Inr (PBool True), ([exists_request db0, create_request db0], []))"
  by (simp add: Database_create_def Database_exists_def send_def raise_for_status_def)

text \<open>
  C3, amended. If \<^verbatim>\<open>exists()\<close> returns true, \<^verbatim>\<open>create()\<close> returns false and the only
  request sent is the HEAD request of the existence check. If \<^verbatim>\<open>exists()\<close> returns false,
  \<^verbatim>\<open>create()\<close> sends the PUT request after it; it fails with \<open>HTTPError\<close> when the status
  of the response is from 400 to 599, returns true for every other status (2xx among
  them), and fails with the transport's error when the transport raises.
\<close>

theorem create_after_exists:
  "(Database_exists net db (log, s) = (Inr (PBool True), w1) \<longrightarrow>
      Database_create net db (log, s) = (Inr (PBool False), w1) \<and> fst w1 = log @ [exists_request db])
   \<and> (Database_exists net db (log, s) = (Inr (PBool False), w1) \<longrightarrow>
        fst (snd (Database_create net db (log, s))) = log @ [exists_request db, create_request db]
        \<and> req_method (create_request db) = PUT
        \<and> req_url (create_request db) = couchdb_url db @ ''/'' @ db_name db
        \<and> (\<forall>r s2. net (create_request db) (snd w1) = (Inr r, s2) \<longrightarrow>
              fst (Database_create net db (log, s)) =
                (if 400 \<le> status_code r \<and> status_code r < 600 then Inl (HTTPError (status_code r))
                 else Inr (PBool True)))
        \<and> (\<forall>msg s2. net (create_request db) (snd w1) = (Inl msg, s2) \<longrightarrow>
              fst (Database_create net db (log, s)) = Inl (TransportError msg)))"
proof (intro conjI impI)
  assume ex: "Database_exists net db (log, s) = (Inr (PBool True), w1)"
  then show "Database_create net db (log, s) = (Inr (PBool False), w1)"
    by (simp add: Database_create_def)
  from ex show "fst w1 = log @ [exists_request db]"
    using Database_exists_log[of net db "(log, s)"] by simp
next
  assume ex: "Database_exists net db (log, s) = (Inr (PBool False), w1)"
  then have w1: "fst w1 = log @ [exists_request db]"
    using Database_exists_log[of net db "(log, s)"] by simp
  from ex w1 show "fst (snd (Database_create net db (log, s))) =
      log @ [exists_request db, create_request db]"
    by (simp add: Database_create_def send_def split: prod.splits sum.splits)
  show "req_method (create_request db) = PUT"
    by (simp add: create_request_def)
  show "req_url (create_request db) = couchdb_url db @ ''/'' @ db_name db"
    by (simp add: create_request_def)
  from ex show "\<forall>r s2. net (create_request db) (snd w1) = (Inr r, s2) \<longrightarrow>
      fst (Database_create net db (log, s)) =
        (if 400 \<le> status_code r \<and> status_code r < 600 then Inl (HTTPError (status_code r))
         else Inr (PBool True))"
    by (simp add: Database_create_def send_def raise_for_status_def)
  from ex show "\<forall>msg s2. net (create_request db) (snd w1) = (Inl msg, s2) \<longrightarrow>
      fst (Database_create net db (log, s)) = Inl (TransportError msg)"
    by (simp add: Database_create_def send_def)
qed

theorem create_after_exists_witness:
  "Database_create scripted db0 ([], [Inr \<lparr>status_code = 200, json_data = None\<rparr>]) =
     (Inr (PBool False), ([exists_request db0], []))
   \<and> fst (Database_create scripted db0
        ([], [Inr \<lparr>status_code = 404, json_data = None\<rparr>, Inr \<lparr>status_code = 201, json_data = None\<rparr>])) =
     Inr (PBool True)
   \<and> fst (snd (Database_create scripted db0
        ([], [Inr \<lparr>status_code = 404, json_data = None\<rparr>, Inr \<lparr>status_code = 201, json_data = None\<rparr>]))) =
     [exists_request db0, create_request db0]
   \<and> fst (Database_create scripted db0
        ([], [Inr \<lparr>status_code = 404, json_data = None\<rparr>, Inr \<lparr>status_code = 412, json_data = None\<rparr>])) =
     Inl (HTTPError 412)
   \<and> fst (Database_create scripted db0 ([], [Inr \<lparr>status_code = 404, json_data = None\<rparr>])) =
     Inl (TransportError ''no response'')"
proof -
  have e200: "Database_exists scripted db0 ([], [Inr \<lparr>status_code = 200, json_data = None\<rparr>]) =
      (Inr (PBool True), ([exists_request db0], []))"
    by (simp add: Database_exists_def send_def)
  have e404: "Database_exists scripted db0 ([], Inr \<lparr>status_code = 404, json_data = None\<rparr> # rs) =
      (Inr (PBool False), ([exists_request db0], rs))" for rs
    by (simp add: Database_exists_def send_def)
  have put: "scripted (create_request db0) (snd ([exists_request db0], [Inr r])) = (Inr r, [])" for r
    by simp
  have lost: "scripted (create_request db0) (snd ([exists_request db0], [])) = (Inl ''no response'', [])"
    by simp
  have present: "Database_create scripted db0 ([], [Inr \<lparr>status_code = 200, json_data = None\<rparr>]) =
      (Inr (PBool False), ([exists_request db0], []))"
    using create_after_exists[THEN conjunct1, THEN mp, OF e200] by simp
  note absent = create_after_exists[THEN conjunct2, THEN mp, OF e404]
  have created: "fst (Database_create scripted db0
        ([], [Inr \<lparr>status_code = 404, json_data = None\<rparr>, Inr \<lparr>status_code = 201, json_data = None\<rparr>])) =
      Inr (PBool True)"
    using absent[THEN conjunct2, THEN conjunct2, THEN conjunct2, THEN conjunct1, rule_format, OF put]
    by simp
  have log: "fst (snd (Database_create scripted db0
        ([], [Inr \<lparr>status_code = 404, json_data = None\<rparr>, Inr \<lparr>status_code = 201, json_data = None\<rparr>]))) =
      [exists_request db0, create_request db0]"
    using absent[THEN conjunct1] by simp
  have refused: "fst (Database_create scripted db0
        ([], [Inr \<lparr>status_code = 404, json_data = None\<rparr>, Inr \<lparr>status_code = 412, json_data = None\<rparr>])) =
      Inl (HTTPError 412)"
    using absent[THEN conjunct2, THEN conjunct2, THEN conjunct2, THEN conjunct1, rule_format, OF put]
    by simp
  have unreachable: "fst (Database_create scripted db0 ([], [Inr \<lparr>status_code = 404, json_data = None\<rparr>])) =
      Inl (TransportError ''no response'')"
    using absent[THEN conjunct2, THEN conjunct2, THEN conjunct2, THEN conjunct2, rule_format, OF lost]
    by simp
  show ?thesis
    using present created log refused unreachable by simp
qed

section \<open>Queries\<close>

text \<open>
  The claim C4 speaks of every string and every list given as \<^verbatim>\<open>sort\<close>. The argument is
  first tested by its truth value: for the empty string and for the empty list the payload
  has no \<^verbatim>\<open>sort\<close> entry at all.
\<close>

theorem find_empty_sort_dropped:
  "find_payload PNone PNone (PStr '''') (PBool True) PNone = [(''selector'', PDict [])]
   \<and> find_payload PNone PNone (PList []) (PBool False) PNone = [(''selector'', PDict [])]"
  by (simp add: find_payload_def)

text \<open>
  C4, amended. \<^verbatim>\<open>find\<close> sends the payload it has built. For a non-empty string \<open>s\<close> given
  as \<^verbatim>\<open>sort\<close>, the \<^verbatim>\<open>sort\<close> entry of the payload is the one-element list
  \<^verbatim>\<open>[{s: "desc"}]\<close> when \<^verbatim>\<open>descending\<close> is true and \<^verbatim>\<open>[{s: "asc"}]\<close> when it is false.
  For a non-empty list the entry is that list, and for any list the payload is the same
  whatever \<^verbatim>\<open>descending\<close> is.
\<close>

theorem find_sort_payload:
  "fst (snd (Database_find net db sel cols srt d lim w)) =
     fst w @ [find_request db (find_payload sel cols srt d lim)]
   \<and> (s \<noteq> [] \<longrightarrow>
        map_of (find_payload sel cols (PStr s) d lim) ''sort'' =
          Some (PList [PDict [(s, PStr (if truthy d then ''desc'' else ''asc''))]]))
   \<and> (xs \<noteq> [] \<longrightarrow> map_of (find_payload sel cols (PList xs) d lim) ''sort'' = Some (PList xs))
   \<and> find_payload sel cols (PList xs) d lim = find_payload sel cols (PList xs) d' lim"
proof (intro conjI impI)
  show "fst (snd (Database_find net db sel cols srt d lim w)) =
     fst w @ [find_request db (find_payload sel cols srt d lim)]"
    by (rule Database_find_log)
  show "map_of (find_payload sel cols (PStr s) d lim) ''sort'' =
          Some (PList [PDict [(s, PStr (if truthy d then ''desc'' else ''asc''))]])" if "s \<noteq> []"
    using that by (simp add: find_payload_def Let_def map_of_setitem)
  show "map_of (find_payload sel cols (PList xs) d lim) ''sort'' = Some (PList xs)" if "xs \<noteq> []"
    using that by (simp add: find_payload_def Let_def map_of_setitem)
  show "find_payload sel cols (PList xs) d lim = find_payload sel cols (PList xs) d' lim"
    by (simp add: find_payload_def Let_def)
qed

theorem find_sort_payload_witness:
  "map_of (find_payload PNone PNone (PStr ''age'') (PBool True) PNone) ''sort'' =
       Some (PList [PDict [(''age'', PStr ''desc'')]])
   \<and> map_of (find_payload PNone PNone (PStr ''age'') (PBool False) PNone) ''sort'' =
       Some (PList [PDict [(''age'', PStr ''asc'')]])
   \<and> map_of (find_payload PNone PNone (PList [PDict [(''age'', PStr ''asc'')]]) (PBool True) PNone) ''sort'' =
       Some (PList [PDict [(''age'', PStr ''asc'')]])"
proof -
  have name: "''age'' \<noteq> []" and order: "[PDict [(''age'', PStr ''asc'')]] \<noteq> []"
    by simp_all
  have "map_of (find_payload PNone PNone (PStr ''age'') (PBool True) PNone) ''sort'' =
       Some (PList [PDict [(''age'', PStr ''desc'')]])"
    using find_sort_payload[THEN conjunct2, THEN conjunct1, THEN mp, OF name, of PNone PNone "PBool True" PNone]
    by simp
  moreover have "map_of (find_payload PNone PNone (PStr ''age'') (PBool False) PNone) ''sort'' =
       Some (PList [PDict [(''age'', PStr ''asc'')]])"
    using find_sort_payload[THEN conjunct2, THEN conjunct1, THEN mp, OF name, of PNone PNone "PBool False" PNone]
    by simp
  moreover have "map_of (find_payload PNone PNone (PList [PDict [(''age'', PStr ''asc'')]]) (PBool True) PNone) ''sort'' =
       Some (PList [PDict [(''age'', PStr ''asc'')]])"
    by (rule find_sort_payload[THEN conjunct2, THEN conjunct2, THEN conjunct1, THEN mp, OF order])
  ultimately show ?thesis
    by simp
qed

text \<open>
  C5. \<^verbatim>\<open>find()\<close> with no arguments sends a POST request to \<^verbatim>\<open>{endpoint}/{name}/_find\<close>
  whose body is \<^verbatim>\<open>{"selector": {}}\<close>. On a 2xx response whose body is a JSON object,
  \<^verbatim>\<open>find\<close> (with any arguments) returns the value under \<^verbatim>\<open>docs\<close> as it is, and the empty
  list when the object has no such key.
\<close>

theorem find_no_arguments:
  "fst (snd (Database_find net db PNone PNone PNone (PBool False) PNone (log, s))) =
     log @ [\<lparr>req_method = POST, req_url = couchdb_url db @ ''/'' @ db_name db @ ''/_find'',
             req_json = Some (PDict [(''selector'', PDict [])]),
             req_auth = auth_of (username db) (password db), req_verify = ca_cert_path db\<rparr>]
   \<and> (net (find_request db (find_payload sel cols srt d lim)) s = (Inr r, s')
        \<and> 200 \<le> status_code r \<and> status_code r < 300 \<and> json_data r = Some (PDict kvs) \<longrightarrow>
        fst (Database_find net db sel cols srt d lim (log, s)) =
          Inr (case map_of kvs ''docs'' of Some docs \<Rightarrow> docs | None \<Rightarrow> PList []))"
proof (intro conjI impI)
  show "fst (snd (Database_find net db PNone PNone PNone (PBool False) PNone (log, s))) =
     log @ [\<lparr>req_method = POST, req_url = couchdb_url db @ ''/'' @ db_name db @ ''/_find'',
             req_json = Some (PDict [(''selector'', PDict [])]),
             req_auth = auth_of (username db) (password db), req_verify = ca_cert_path db\<rparr>]"
    by (simp add: Database_find_log find_request_def find_payload_def)
next
  assume "net (find_request db (find_payload sel cols srt d lim)) s = (Inr r, s')
        \<and> 200 \<le> status_code r \<and> status_code r < 300 \<and> json_data r = Some (PDict kvs)"
  then show "fst (Database_find net db sel cols srt d lim (log, s)) =
          Inr (case map_of kvs ''docs'' of Some docs \<Rightarrow> docs | None \<Rightarrow> PList [])"
    by (simp add: Database_find_def send_def raise_for_status_def json_def)
qed

theorem find_no_arguments_witness:
  "fst (snd (Database_find (always 200 (Some (PDict [(''docs'', PList [PDict [(''a'', PInt 1)]])]))) db0
         PNone PNone PNone (PBool False) PNone ([], ()))) =
     [\<lparr>req_method = POST, req_url = ''http://h:5984/d/_find'',
       req_json = Some (PDict [(''selector'', PDict [])]),
       req_auth = Some (Some ''u'', Some ''pw''), req_verify = None\<rparr>]
   \<and> fst (Database_find (always 200 (Some (PDict [(''docs'', PList [PDict [(''a'', PInt 1)]])]))) db0
         PNone PNone PNone (PBool False) PNone ([], ())) = Inr (PList [PDict [(''a'', PInt 1)]])
   \<and> fst (Database_find (always 200 (Some (PDict [(''bookmark'', PStr ''nil'')]))) db0
         PNone PNone PNone (PBool False) PNone ([], ())) = Inr (PList [])"
  using find_no_arguments[where net = "always 200 (Some (PDict [(''docs'', PList [PDict [(''a'', PInt 1)]])]))"
      and db = db0 and log = "[]" and s = "()" and sel = PNone and cols = PNone and srt = PNone
      and d = "PBool False" and lim = PNone and s' = "()"
      and r = "\<lparr>status_code = 200, json_data = Some (PDict [(''docs'', PList [PDict [(''a'', PInt 1)]])])\<rparr>"
      and kvs = "[(''docs'', PList [PDict [(''a'', PInt 1)]])]"]
    find_no_arguments[where net = "always 200 (Some (PDict [(''bookmark'', PStr ''nil'')]))"
      and db = db0 and log = "[]" and s = "()" and sel = PNone and cols = PNone and srt = PNone
      and d = "PBool False" and lim = PNone and s' = "()"
      and r = "\<lparr>status_code = 200, json_data = Some (PDict [(''bookmark'', PStr ''nil'')])\<rparr>"
      and kvs = "[(''bookmark'', PStr ''nil'')]"]
  by (simp add: always_def db0_def Database_init_def rstrip_def auth_of_def)

text \<open>
  C10. The payload of \<^verbatim>\<open>find\<close> has no \<^verbatim>\<open>limit\<close> key when \<^verbatim>\<open>limit\<close> is \<^verbatim>\<open>None\<close> or 0, no
  \<^verbatim>\<open>fields\<close> key when \<^verbatim>\<open>columns\<close> is \<^verbatim>\<open>None\<close> or the empty list, and no \<^verbatim>\<open>sort\<close> key when
  \<^verbatim>\<open>sort\<close> is true as a condition but neither a string nor a list; the request is sent
  with that payload all the same.
\<close>

theorem find_drops_falsy_arguments:
  "(lim = PNone \<or> lim = PInt 0 \<longrightarrow>
      ''limit'' \<notin> set (map fst (find_payload sel cols srt d lim)))
   \<and> (cols = PNone \<or> cols = PList [] \<longrightarrow>
      ''fields'' \<notin> set (map fst (find_payload sel cols srt d lim)))
   \<and> (truthy srt \<and> (\<forall>s. srt \<noteq> PStr s) \<and> (\<forall>xs. srt \<noteq> PList xs) \<longrightarrow>
      ''sort'' \<notin> set (map fst (find_payload sel cols srt d lim)))
   \<and> fst (snd (Database_find net db sel cols srt d lim w)) =
       fst w @ [find_request db (find_payload sel cols srt d lim)]"
proof (intro conjI impI)
  show "''limit'' \<notin> set (map fst (find_payload sel cols srt d lim))" if "lim = PNone \<or> lim = PInt 0"
    unfolding keys_find_payload using that by auto
  show "''fields'' \<notin> set (map fst (find_payload sel cols srt d lim))" if "cols = PNone \<or> cols = PList []"
    unfolding keys_find_payload using that by auto
  show "''sort'' \<notin> set (map fst (find_payload sel cols srt d lim))"
    if "truthy srt \<and> (\<forall>s. srt \<noteq> PStr s) \<and> (\<forall>xs. srt \<noteq> PList xs)"
    unfolding keys_find_payload using that by auto
  show "fst (snd (Database_find net db sel cols srt d lim w)) =
       fst w @ [find_request db (find_payload sel cols srt d lim)]"
    by (rule Database_find_log)
qed

theorem find_drops_falsy_arguments_witness:
  "''limit'' \<notin> set (map fst (find_payload (PDict [(''a'', PInt 1)]) (PList []) (PInt 7) (PBool True) (PInt 0)))
   \<and> ''fields'' \<notin> set (map fst (find_payload (PDict [(''a'', PInt 1)]) (PList []) (PInt 7) (PBool True) (PInt 0)))
   \<and> ''sort'' \<notin> set (map fst (find_payload (PDict [(''a'', PInt 1)]) (PList []) (PInt 7) (PBool True) (PInt 0)))"
proof -
  have no_limit: "PInt 0 = PNone \<or> PInt 0 = PInt 0"
    and no_columns: "PList [] = PNone \<or> PList [] = PList []"
    and odd_sort: "truthy (PInt 7) \<and> (\<forall>s. PInt 7 \<noteq> PStr s) \<and> (\<forall>xs. PInt 7 \<noteq> PList xs)"
    by simp_all
  show ?thesis
    using find_drops_falsy_arguments[THEN conjunct1, THEN mp, OF no_limit]
      find_drops_falsy_arguments[THEN conjunct2, THEN conjunct1, THEN mp, OF no_columns]
      find_drops_falsy_arguments[THEN conjunct2, THEN conjunct2, THEN conjunct1, THEN mp, OF odd_sort]
    by blast
qed

section \<open>Bulk insertion\<close>



section \<open>Authentication\<close>

text \<open>
  C7. The credentials given to the library are the pair of user name and password when
  both are present and not empty, and \<^verbatim>\<open>None\<close> (no authentication) otherwise; every request
  sent by \<^verbatim>\<open>exists\<close>, \<^verbatim>\<open>create\<close>, \<^verbatim>\<open>find\<close>, \<^verbatim>\<open>insert_one\<close>, \<^verbatim>\<open>insert_many\<close> and by the
  \<^verbatim>\<open>databases\<close> property carries exactly these credentials.
\<close>

theorem basic_auth_all_or_nothing:
  "auth_of u p = (if u \<noteq> None \<and> u \<noteq> Some [] \<and> p \<noteq> None \<and> p \<noteq> Some [] then Some (u, p) else None)
   \<and> (\<exists>rs. fst (snd (Database_exists net db w)) = fst w @ rs \<and> rs \<noteq> []
          \<and> (\<forall>r\<in>set rs. req_auth r = auth_of (username db) (password db)))
   \<and> (\<exists>rs. fst (snd (Database_create net db w)) = fst w @ rs \<and> rs \<noteq> []
          \<and> (\<forall>r\<in>set rs. req_auth r = auth_of (username db) (password db)))
   \<and> (\<exists>rs. fst (snd (Database_find net db sel cols srt d lim w)) = fst w @ rs \<and> rs \<noteq> []
          \<and> (\<forall>r\<in>set rs. req_auth r = auth_of (username db) (password db)))
   \<and> (\<exists>rs. fst (snd (Database_insert_one net db doc w)) = fst w @ rs \<and> rs \<noteq> []
          \<and> (\<forall>r\<in>set rs. req_auth r = auth_of (username db) (password db)))
   \<and> (\<exists>rs. fst (snd (Database_insert_many net db docs w)) = fst w @ rs \<and> rs \<noteq> []
          \<and> (\<forall>r\<in>set rs. req_auth r = auth_of (username db) (password db)))
   \<and> (\<exists>rs. fst (snd (snd (Client_databases net' c w'))) = fst w' @ rs
          \<and> (truthy (databases_memo c) \<or> rs \<noteq> [])
          \<and> (\<forall>r\<in>set rs. req_auth r = auth_of (username c) (password c)))"
proof (intro conjI)
  show "auth_of u p = (if u \<noteq> None \<and> u \<noteq> Some [] \<and> p \<noteq> None \<and> p \<noteq> Some [] then Some (u, p) else None)"
    by (cases u; cases p) (simp_all add: auth_of_def)
  show "\<exists>rs. fst (snd (Database_exists net db w)) = fst w @ rs \<and> rs \<noteq> []
          \<and> (\<forall>r\<in>set rs. req_auth r = auth_of (username db) (password db))"
    by (rule exI[of _ "[exists_request db]"]) (simp add: Database_exists_log exists_request_def)
  show "\<exists>rs. fst (snd (Database_create net db w)) = fst w @ rs \<and> rs \<noteq> []
          \<and> (\<forall>r\<in>set rs. req_auth r = auth_of (username db) (password db))"
  proof (rule disjE[OF Database_create_log[of net db w]])
    assume "fst (snd (Database_create net db w)) = fst w @ [exists_request db]"
    then show ?thesis
      by (intro exI[of _ "[exists_request db]"]) (simp add: exists_request_def)
  next
    assume "fst (snd (Database_create net db w)) = fst w @ [exists_request db, create_request db]"
    then show ?thesis
      by (intro exI[of _ "[exists_request db, create_request db]"])
        (simp add: exists_request_def create_request_def)
  qed
  show "\<exists>rs. fst (snd (Database_find net db sel cols srt d lim w)) = fst w @ rs \<and> rs \<noteq> []
          \<and> (\<forall>r\<in>set rs. req_auth r = auth_of (username db) (password db))"
    by (rule exI[of _ "[find_request db (find_payload sel cols srt d lim)]"])
      (simp add: Database_find_log find_request_def)
  show "\<exists>rs. fst (snd (Database_insert_one net db doc w)) = fst w @ rs \<and> rs \<noteq> []
          \<and> (\<forall>r\<in>set rs. req_auth r = auth_of (username db) (password db))"
    by (rule exI[of _ "[insert_one_request db doc]"])
      (simp add: Database_insert_one_log insert_one_request_def)
  show "\<exists>rs. fst (snd (Database_insert_many net db docs w)) = fst w @ rs \<and> rs \<noteq> []
          \<and> (\<forall>r\<in>set rs. req_auth r = auth_of (username db) (password db))"
    by (rule exI[of _ "[insert_many_request db docs]"])
      (simp add: Database_insert_many_log insert_many_request_def)
  show "\<exists>rs. fst (snd (snd (Client_databases net' c w'))) = fst w' @ rs
          \<and> (truthy (databases_memo c) \<or> rs \<noteq> [])
          \<and> (\<forall>r\<in>set rs. req_auth r = auth_of (username c) (password c))"
    by (rule exI[of _ "if truthy (databases_memo c) then [] else [databases_request c]"])
      (simp add: Client_databases_log databases_request_def)
qed

theorem basic_auth_all_or_nothing_witness:
  "auth_of (Some ''u'') (Some ''pw'') = Some (Some ''u'', Some ''pw'')
   \<and> auth_of (Some ''u'') None = None
   \<and> auth_of (Some '''') (Some ''pw'') = None
   \<and> (\<exists>rs. fst (snd (Database_create scripted db0
              ([], [Inr \<lparr>status_code = 404, json_data = None\<rparr>, Inr \<lparr>status_code = 201, json_data = None\<rparr>]))) =
            [] @ rs
          \<and> rs \<noteq> [] \<and> (\<forall>r\<in>set rs. req_auth r = Some (Some ''u'', Some ''pw'')))"
proof -
  have both: "auth_of (Some ''u'') (Some ''pw'') = Some (Some ''u'', Some ''pw'')"
    using basic_auth_all_or_nothing[THEN conjunct1, of "Some ''u''" "Some ''pw''"] by simp
  have no_password: "auth_of (Some ''u'') None = None"
    using basic_auth_all_or_nothing[THEN conjunct1, of "Some ''u''" None] by simp
  have empty_name: "auth_of (Some '''') (Some ''pw'') = None"
    using basic_auth_all_or_nothing[THEN conjunct1, of "Some ''''" "Some ''pw''"] by simp
  have cred: "auth_of (username db0) (password db0) = Some (Some ''u'', Some ''pw'')"
    using both by (simp add: db0_def Database_init_def)
  have "\<exists>rs. fst (snd (Database_create scripted db0
              ([], [Inr \<lparr>status_code = 404, json_data = None\<rparr>, Inr \<lparr>status_code = 201, json_data = None\<rparr>]))) =
            [] @ rs
          \<and> rs \<noteq> [] \<and> (\<forall>r\<in>set rs. req_auth r = auth_of (username db0) (password db0))"
    using basic_auth_all_or_nothing[where net = scripted and db = db0
        and w = "([], [Inr \<lparr>status_code = 404, json_data = None\<rparr>, Inr \<lparr>status_code = 201, json_data = None\<rparr>])",
        THEN conjunct2, THEN conjunct2, THEN conjunct1]
    by simp
  then have "\<exists>rs. fst (snd (Database_create scripted db0
              ([], [Inr \<lparr>status_code = 404, json_data = None\<rparr>, Inr \<lparr>status_code = 201, json_data = None\<rparr>]))) =
            [] @ rs
          \<and> rs \<noteq> [] \<and> (\<forall>r\<in>set rs. req_auth r = Some (Some ''u'', Some ''pw''))"
    unfolding cred .
  then show ?thesis
    using both no_password empty_name by blast
qed

section \<open>Endpoint normalisation\<close>

text \<open>
  C8. A client or a database constructed with an endpoint followed by one or more slashes
  is the same object as the one constructed with the endpoint alone, so every operation
  sends the same requests to the same URLs; and the endpoint stored in a client, in a
  database, or in a database obtained from a client never ends with a slash.
\<close>

theorem trailing_slashes_stripped:
  "Client_init (e @ replicate (Suc k) CHR ''/'') u p ca = Client_init e u p ca
   \<and> Database_init (e @ replicate (Suc k) CHR ''/'') u p ca n = Database_init e u p ca n
   \<and> Client_getitem (Client_init (e @ replicate (Suc k) CHR ''/'') u p ca) n =
       Client_getitem (Client_init e u p ca) n
   \<and> req_url (databases_request (Client_init (e @ replicate (Suc k) CHR ''/'') u p ca)) =
       req_url (databases_request (Client_init e u p ca))
   \<and> req_url (exists_request (Database_init (e @ replicate (Suc k) CHR ''/'') u p ca n)) =
       req_url (exists_request (Database_init e u p ca n))
   \<and> req_url (create_request (Database_init (e @ replicate (Suc k) CHR ''/'') u p ca n)) =
       req_url (create_request (Database_init e u p ca n))
   \<and> req_url (find_request (Database_init (e @ replicate (Suc k) CHR ''/'') u p ca n) payload) =
       req_url (find_request (Database_init e u p ca n) payload)
   \<and> req_url (insert_one_request (Database_init (e @ replicate (Suc k) CHR ''/'') u p ca n) doc) =
       req_url (insert_one_request (Database_init e u p ca n) doc)
   \<and> req_url (insert_many_request (Database_init (e @ replicate (Suc k) CHR ''/'') u p ca n) docs) =
       req_url (insert_many_request (Database_init e u p ca n) docs)
   \<and> couchdb_url (Client_init e u p ca) \<noteq> t @ ''/''
   \<and> couchdb_url (Database_init e u p ca n) \<noteq> t @ ''/''
   \<and> couchdb_url (Client_getitem (Client_init e u p ca) n) \<noteq> t @ ''/''"
proof -
  have strip: "rstrip (e @ replicate (Suc k) CHR ''/'') ''/'' = rstrip e ''/''"
    by (rule rstrip_append_slashes)
  have c: "Client_init (e @ replicate (Suc k) CHR ''/'') u p ca = Client_init e u p ca"
    unfolding Client_init_def strip ..
  have d: "Database_init (e @ replicate (Suc k) CHR ''/'') u p ca n = Database_init e u p ca n"
    unfolding Database_init_def strip ..
  have nc: "couchdb_url (Client_init e u p ca) \<noteq> t @ ''/''"
    by (simp add: Client_init_def rstrip_no_trailing)
  have nd: "couchdb_url (Database_init e u p ca n) \<noteq> t @ ''/''"
    by (simp add: Database_init_def rstrip_no_trailing)
  have ng: "couchdb_url (Client_getitem (Client_init e u p ca) n) \<noteq> t @ ''/''"
    by (simp add: Client_getitem_def Database_init_def rstrip_no_trailing)
  show ?thesis
    unfolding c d using nc nd ng by simp
qed

theorem trailing_slashes_stripped_witness:
  "Client_init ''http://h:5984//'' None None None = Client_init ''http://h:5984'' None None None
   \<and> req_url (exists_request (Database_init ''http://h:5984//'' None None None ''d'')) =
       req_url (exists_request (Database_init ''http://h:5984'' None None None ''d''))
   \<and> couchdb_url (Client_init ''http://h:5984//'' None None None) \<noteq> ''http://h:5984/''"
  using trailing_slashes_stripped[of "''http://h:5984''" "Suc 0" None None None "''d''" _ _ _
      "''http://h:5984''"]
    trailing_slashes_stripped[of "''http://h:5984//''" 0 None None None "''d''" _ _ _
      "''http://h:5984''"]
  by simp

end
